theory Spec2Isabelle
  imports Main "HOL-Library.DAList"
begin

section \<open>Values exchanged with the handlers\<close>

text \<open>
  The handlers of \<^verbatim>\<open>app_fixed.py\<close> catch every exception and turn it into the JSON body
  \<^verbatim>\<open>{"code": -1, "msg": str(e)}\<close>. An exception is a value here; \<open>str\<close> is Python's
  \<^verbatim>\<open>str(e)\<close> (a \<^verbatim>\<open>KeyError\<close> prints its key in quotes).
\<close>

datatype exn =
    KeyError string
  | ValueError string
  | AttributeError string
  | Raised string

fun str :: "exn \<Rightarrow> string" where
  "str (KeyError k) = CHR 0x27 # k @ [CHR 0x27]"
| "str (ValueError m) = m"
| "str (AttributeError m) = m"
| "str (Raised m) = m"

text \<open>
  The JSON bodies the handlers return: \<open>Status c m\<close> is \<^verbatim>\<open>{"code": c, "msg": m}\<close>,
  \<open>Answer s t i\<close> is \<^verbatim>\<open>{"sdp": s, "type": t, "sessionid": i}\<close> and
  \<open>Health s n m\<close> is \<^verbatim>\<open>{"status": s, "sessions": n, "model": m}\<close>.
\<close>

datatype response =
    Status int string
  | Answer string string int
  | Health string nat string

text \<open>
  The JSON body of a request, with the fields typed as the interface types them; \<open>None\<close> is
  an absent key. The fields \<open>type_p\<close>, \<open>text_p\<close> and \<open>sessionid_p\<close> are the keys
  \<^verbatim>\<open>type\<close>, \<^verbatim>\<open>text\<close> and \<^verbatim>\<open>sessionid\<close>.
\<close>

record params =
  sdp :: "string option"
  type_p :: "string option"
  sessionid_p :: "int option"
  text_p :: "string option"
  interrupt :: "bool option"
  audiotype :: "int option"

text \<open>
  The multipart form of the audio upload. \<open>sessionid_f\<close> is the outcome of
  \<^verbatim>\<open>int(...)\<close> on the field when the field is present (\<^verbatim>\<open>int\<close> raises on
  text that is not a number); \<open>file_f\<close> is the field \<^verbatim>\<open>file\<close>: an uploaded file with
  its name and content, or a plain text value.
\<close>

datatype field = File string string | Text string

record form =
  sessionid_f :: "(exn + int) option"
  file_f :: "field option"

section \<open>Renderers, codecs and connections\<close>

datatype variant = LipReal | MuseReal | LightReal

text \<open>A renderer object: its class and the identity of the object.\<close>

record renderer =
  variant :: variant
  ref :: nat

datatype invocation =
    flush_talk
  | put_msg_txt string
  | put_audio_file string
  | set_curr_state int

text \<open>
  What the handlers do to their collaborators: a method called on a renderer, a task handed to
  the executor (the call it will make), a file written.
\<close>

datatype effect =
    Call renderer invocation
  | Submit renderer invocation
  | Write string string

record codec =
  mimeType :: string
  clockRate :: nat

record transceiver =
  kind :: string
  preferences :: "codec list option"

text \<open>
  An \<^verbatim>\<open>RTCPeerConnection\<close> created by \<^verbatim>\<open>offer\<close>: the session id its
  \<^verbatim>\<open>connectionstatechange\<close> handler has captured, and its transceivers.
\<close>

record peer =
  session :: int
  transceivers :: "transceiver list"

section \<open>Globals\<close>

text \<open>
  \<^verbatim>\<open>opt\<close> is the argparse namespace (\<open>max_session = None\<close>: the attribute is missing,
  as \<^verbatim>\<open>hasattr\<close> tests). \<^verbatim>\<open>nerfreals\<close> is a Python dict: an association list
  with distinct keys in insertion order, whose \<^verbatim>\<open>len\<close> is \<open>size\<close>.
\<close>

record options =
  max_session :: "int option"
  model :: string
  sessionid :: "int option"

text \<open>
  The state: the globals \<open>opt\<close>, \<open>nerfreals\<close> and \<open>pcs\<close> of the module, and what the
  model keeps of its surroundings: the peer connections created so far (\<open>peers\<close>), the
  session ids of the \<^verbatim>\<open>offer\<close> calls suspended at \<^verbatim>\<open>await run_in_executor\<close>
  (\<open>building\<close>) and the effects on collaborators in the order they happened
  (\<open>effects\<close>).
\<close>

record state =
  opt :: "options option"
  nerfreals :: "(int, renderer option) alist"
  pcs :: "nat set"
  peers :: "(nat, peer) alist"
  building :: "int list"
  effects :: "effect list"

definition init :: "options option \<Rightarrow> state" where
  "init args =
     \<lparr>opt = args, nerfreals = DAList.empty, pcs = {}, peers = DAList.empty,
      building = [], effects = []\<rparr>"

section \<open>Session ids\<close>

text \<open>
  \<^verbatim>\<open>randN(N)\<close>: \<^verbatim>\<open>random.randint(pow(10, N - 1), pow(10, N) - 1)\<close>. The random
  source is the parameter \<open>randint\<close>. For \<open>N < 1\<close> the lower bound \<^verbatim>\<open>pow(10, N - 1)\<close>
  is a fraction and \<^verbatim>\<open>randint\<close> raises (the exception of Python 3.11 is taken; the
  handlers only call \<^verbatim>\<open>randN(6)\<close>).
\<close>

definition randN :: "(int \<Rightarrow> int \<Rightarrow> int) \<Rightarrow> int \<Rightarrow> exn + int" where
  "randN randint N =
     (if 1 \<le> N then
        (let min_val = 10 ^ nat (N - 1); max_val = 10 ^ nat N
         in Inr (randint min_val (max_val - 1)))
      else Inl (ValueError ''non-integer arg 1 for randrange()''))"

section \<open>Building a renderer\<close>

text \<open>
  \<^verbatim>\<open>build_nerfreal(sessionid)\<close>. \<open>alloc\<close> is what importing and calling the renderer
  class does: it raises, or returns a new object. The function sets \<^verbatim>\<open>opt.sessionid\<close>
  first; an unknown model raises \<^verbatim>\<open>ValueError\<close>.
\<close>

definition construct :: "variant \<Rightarrow> exn + nat \<Rightarrow> exn + renderer" where
  "construct v alloc =
     (case alloc of Inl e \<Rightarrow> Inl e | Inr a \<Rightarrow> Inr \<lparr>variant = v, ref = a\<rparr>)"

definition build_nerfreal ::
  "options option \<Rightarrow> exn + nat \<Rightarrow> int \<Rightarrow> options option \<times> (exn + renderer)" where
  "build_nerfreal args alloc sid =
     (case args of
        None \<Rightarrow>
          (None, Inl (AttributeError
             (CHR 0x27 # ''NoneType'' @ CHR 0x27 # '' object has no attribute ''
                @ CHR 0x27 # ''model'' @ [CHR 0x27])))
      | Some a \<Rightarrow>
          (Some (a\<lparr>sessionid := Some sid\<rparr>),
           if model a = ''wav2lip'' then construct LipReal alloc
           else if model a = ''musetalk'' then construct MuseReal alloc
           else if model a = ''ultralight'' then construct LightReal alloc
           else Inl (ValueError (''Unknown model: '' @ model a))))"

section \<open>Codec preferences\<close>

text \<open>
  One \<^verbatim>\<open>for codec in capabilities.codecs\<close> loop of \<^verbatim>\<open>offer\<close>: every codec of
  the given mime type is appended to \<open>preferences\<close>.
\<close>

fun scan :: "string \<Rightarrow> codec list \<Rightarrow> codec list \<Rightarrow> codec list" where
  "scan m [] prefs = prefs"
| "scan m (c # cs) prefs = scan m cs (if mimeType c = m then prefs @ [c] else prefs)"

definition codec_preferences :: "codec list \<Rightarrow> codec list" where
  "codec_preferences codecs =
     scan ''video/rtx'' codecs (scan ''video/VP8'' codecs (scan ''video/H264'' codecs []))"

text \<open>
  The loop over \<^verbatim>\<open>pc.getTransceivers()\<close>: the first transceiver of kind
  \<^verbatim>\<open>video\<close> gets the preferences, then \<^verbatim>\<open>break\<close>.
\<close>

fun setCodecPreferences :: "codec list \<Rightarrow> transceiver list \<Rightarrow> transceiver list" where
  "setCodecPreferences prefs [] = []"
| "setCodecPreferences prefs (t # ts) =
     (if kind t = ''video'' then t\<lparr>preferences := Some prefs\<rparr> # ts
      else t # setCodecPreferences prefs ts)"

text \<open>
  The \<^verbatim>\<open>try\<close> block around the preferences. \<open>caps\<close> is the outcome of
  \<^verbatim>\<open>RTCRtpSender.getCapabilities("video")\<close> (raises, returns nothing, or returns the
  codecs), \<open>fails\<close> an exception of \<^verbatim>\<open>setCodecPreferences\<close>. An exception is logged
  and the transceivers stay as they were.
\<close>

definition apply_codec_preferences ::
  "exn + codec list option \<Rightarrow> exn option \<Rightarrow> transceiver list \<Rightarrow> transceiver list" where
  "apply_codec_preferences caps fails ts =
     (case caps of
        Inl e \<Rightarrow> ts
      | Inr None \<Rightarrow> ts
      | Inr (Some codecs) \<Rightarrow>
          if codecs = [] then ts
          else
            (let prefs = codec_preferences codecs
             in if prefs = [] then ts
                else if list_ex (\<lambda>t. kind t = ''video'') ts \<and> fails \<noteq> None then ts
                else setCodecPreferences prefs ts))"

section \<open>The offer handler\<close>

text \<open>
  \<^verbatim>\<open>RTCSessionDescription(sdp=params["sdp"], type=params["type"])\<close>: a missing key
  raises \<^verbatim>\<open>KeyError\<close>, \<^verbatim>\<open>sdp\<close> first. The constructor, of the transport
  library, then raises \<^verbatim>\<open>ValueError\<close> for a type that is none of
  \<^verbatim>\<open>offer\<close>, \<^verbatim>\<open>pranswer\<close>, \<^verbatim>\<open>answer\<close> and \<^verbatim>\<open>rollback\<close>;
  \<open>type_error\<close> is the text of that exception. (Decoding the body is not part of this
  module.)
\<close>

definition type_error :: "string \<Rightarrow> string" where
  "type_error t =
     CHR 0x27 # ''type'' @ CHR 0x27 # '' must be in [''
       @ CHR 0x27 # ''offer'' @ CHR 0x27 # '', '' @ CHR 0x27 # ''pranswer'' @ CHR 0x27 # '', ''
       @ CHR 0x27 # ''answer'' @ CHR 0x27 # '', '' @ CHR 0x27 # ''rollback'' @ CHR 0x27 # ''] (got ''
       @ CHR 0x27 # t @ CHR 0x27 # '')''"

definition session_description :: "params \<Rightarrow> exn + string \<times> string" where
  "session_description p =
     (case sdp p of
        None \<Rightarrow> Inl (KeyError ''sdp'')
      | Some s \<Rightarrow>
          (case type_p p of
             None \<Rightarrow> Inl (KeyError ''type'')
           | Some t \<Rightarrow>
               if t \<in> set [''offer'', ''pranswer'', ''answer'', ''rollback'']
               then Inr (s, t)
               else Inl (ValueError (type_error t))))"

text \<open>
  \<^verbatim>\<open>hasattr(opt, 'max_session') and len(nerfreals) >= opt.max_session\<close>
\<close>

definition reached_max_session :: "state \<Rightarrow> bool" where
  "reached_max_session st =
     (case opt st of
        None \<Rightarrow> False
      | Some a \<Rightarrow>
          (case max_session a of
             None \<Rightarrow> False
           | Some m \<Rightarrow> m \<le> int (size (nerfreals st))))"

text \<open>
  \<^verbatim>\<open>offer\<close> from the decoded body to its first suspension on shared state, the
  \<^verbatim>\<open>await loop.run_in_executor(None, build_nerfreal, sessionid)\<close>. No \<^verbatim>\<open>await\<close>
  stands between the check of the limit and \<^verbatim>\<open>nerfreals[sessionid] = None\<close>, so the part
  is one step. The result is the response when the handler returns here, or the session id whose
  renderer is now being built.
\<close>

definition offer_admit ::
  "state \<Rightarrow> params \<Rightarrow> (int \<Rightarrow> int \<Rightarrow> int) \<Rightarrow> state \<times> (response + int)" where
  "offer_admit st p randint =
     (case session_description p of
        Inl e \<Rightarrow> (st, Inl (Status (- 1) (str e)))
      | Inr offer \<Rightarrow>
          if reached_max_session st then (st, Inl (Status (- 1) ''reach max session''))
          else
            (case randN randint 6 of
               Inl e \<Rightarrow> (st, Inl (Status (- 1) (str e)))
             | Inr sid \<Rightarrow>
                 (st\<lparr>nerfreals := DAList.update sid None (nerfreals st),
                     building := building st @ [sid]\<rparr>,
                  Inr sid)))"

text \<open>
  What the collaborators do for one \<^verbatim>\<open>offer\<close> after the build was started: the outcome
  of the renderer's constructor, the new \<^verbatim>\<open>RTCPeerConnection\<close> object, an exception of
  \<^verbatim>\<open>HumanPlayer\<close> or \<^verbatim>\<open>addTrack\<close>, the transceivers the tracks gave the
  connection, the codec capabilities, an exception of \<^verbatim>\<open>setCodecPreferences\<close>, and the
  outcome of the SDP negotiation (the local description's sdp and type).
\<close>

record collaborators =
  alloc :: "exn + nat"
  pc :: nat
  player :: "exn option"
  tracks :: "transceiver list"
  capabilities :: "exn + codec list option"
  codec_failure :: "exn option"
  negotiation :: "exn + string \<times> string"

text \<open>
  \<^verbatim>\<open>offer\<close> from the result of the build to its response. The renderer is stored with
  \<^verbatim>\<open>nerfreals[sessionid] = nerfreal\<close>; the connection is created, added to
  \<^verbatim>\<open>pcs\<close> and given its handlers; the tracks and the codec preferences follow. The
  later \<^verbatim>\<open>await\<close>s of the negotiation touch no global, so the part is one step.
  An exception at any point is caught by the handler's \<^verbatim>\<open>except\<close>, which only
  builds the response. (The build runs in a worker thread; what it does to \<^verbatim>\<open>opt\<close>
  is taken at the moment its result arrives.)
\<close>

definition offer_resume :: "state \<Rightarrow> int \<Rightarrow> collaborators \<Rightarrow> state \<times> response" where
  "offer_resume st sid x =
     (let (args, built) = build_nerfreal (opt st) (alloc x) sid;
          st0 = st\<lparr>opt := args, building := remove1 sid (building st)\<rparr>
      in case built of
           Inl e \<Rightarrow> (st0, Status (- 1) (str e))
         | Inr nerfreal \<Rightarrow>
             (let st1 = st0\<lparr>nerfreals := DAList.update sid (Some nerfreal) (nerfreals st0),
                            pcs := insert (pc x) (pcs st0),
                            peers := DAList.update (pc x)
                              \<lparr>session = sid, transceivers = []\<rparr> (peers st0)\<rparr>
              in case player x of
                   Some e \<Rightarrow> (st1, Status (- 1) (str e))
                 | None \<Rightarrow>
                     (let st2 = st1\<lparr>peers := DAList.update (pc x)
                                    \<lparr>session = sid,
                                     transceivers = apply_codec_preferences (capabilities x)
                                       (codec_failure x) (tracks x)\<rparr> (peers st1)\<rparr>
                      in case negotiation x of
                           Inl e \<Rightarrow> (st2, Status (- 1) (str e))
                         | Inr (s, t) \<Rightarrow> (st2, Answer s t sid))))"

text \<open>
  The \<^verbatim>\<open>connectionstatechange\<close> handler of a connection: \<open>c\<close> and \<open>sid\<close> are the
  connection and the session id its closure holds, \<open>connectionState\<close> the state it reads.
  (In the \<^verbatim>\<open>failed\<close> branch the handler first awaits \<^verbatim>\<open>pc.close()\<close>, which
  touches no global; the step is the part after it.)
\<close>

definition on_connectionstatechange :: "state \<Rightarrow> nat \<Rightarrow> int \<Rightarrow> string \<Rightarrow> state" where
  "on_connectionstatechange st c sid connectionState =
     (if connectionState = ''failed'' then
        (let st1 = st\<lparr>pcs := pcs st - {c}\<rparr>
         in if DAList.lookup (nerfreals st1) sid \<noteq> None
            then st1\<lparr>nerfreals := DAList.delete sid (nerfreals st1)\<rparr> else st1)
      else if connectionState = ''closed'' then
        (let st1 = st\<lparr>pcs := pcs st - {c}\<rparr>
         in if DAList.lookup (nerfreals st1) sid \<noteq> None
            then st1\<lparr>nerfreals := DAList.delete sid (nerfreals st1)\<rparr> else st1)
      else st)"

section \<open>The command handlers\<close>

definition call :: "state \<Rightarrow> renderer \<Rightarrow> invocation \<Rightarrow> state" where
  "call st r m = st\<lparr>effects := effects st @ [Call r m]\<rparr>"

text \<open>
  \<^verbatim>\<open>llm_response(message, nerfreal)\<close>: the call the executor task makes. The prefix is
  the UTF-8 text the source puts before the message.
\<close>

definition llm_response :: "string \<Rightarrow> invocation" where
  "llm_response message =
     put_msg_txt ([CHR 0xE6, CHR 0x94, CHR 0xB6, CHR 0xE5, CHR 0x88, CHR 0xB0] @ '': '' @ message)"

definition get_sessionid :: "params \<Rightarrow> int" where
  "get_sessionid p = (case sessionid_p p of None \<Rightarrow> 0 | Some n \<Rightarrow> n)"

definition get_text :: "params \<Rightarrow> string" where
  "get_text p = (case text_p p of None \<Rightarrow> [] | Some t \<Rightarrow> t)"

definition human :: "state \<Rightarrow> params \<Rightarrow> state \<times> response" where
  "human st p =
     (let sid = get_sessionid p
      in case DAList.lookup (nerfreals st) sid of
           None \<Rightarrow> (st, Status (- 1) ''session not found'')
         | Some None \<Rightarrow> (st, Status (- 1) ''session not found'')
         | Some (Some nerfreal) \<Rightarrow>
             (let st1 = (if interrupt p = Some True then call st nerfreal flush_talk else st);
                  st2 = (if type_p p = Some ''echo''
                         then call st1 nerfreal (put_msg_txt (get_text p))
                         else if type_p p = Some ''chat''
                         then st1\<lparr>effects := effects st1 @
                                [Submit nerfreal (llm_response (get_text p))]\<rparr>
                         else st1)
              in (st2, Status 0 ''ok'')))"

definition interrupt_talk :: "state \<Rightarrow> params \<Rightarrow> state \<times> response" where
  "interrupt_talk st p =
     (let sid = get_sessionid p
      in case DAList.lookup (nerfreals st) sid of
           Some (Some nerfreal) \<Rightarrow> (call st nerfreal flush_talk, Status 0 ''ok'')
         | _ \<Rightarrow> (st, Status 0 ''ok''))"

definition set_audiotype :: "state \<Rightarrow> params \<Rightarrow> state \<times> response" where
  "set_audiotype st p =
     (let sid = get_sessionid p;
          a = (case audiotype p of None \<Rightarrow> 0 | Some n \<Rightarrow> n)
      in case DAList.lookup (nerfreals st) sid of
           Some (Some nerfreal) \<Rightarrow> (call st nerfreal (set_curr_state a), Status 0 ''ok'')
         | _ \<Rightarrow> (st, Status 0 ''ok''))"

text \<open>The text an f-string gives an integer.\<close>

fun digits :: "nat \<Rightarrow> string" where
  "digits n =
     (if n < 10 then [''0123456789'' ! n]
      else digits (n div 10) @ [''0123456789'' ! (n mod 10)])"

definition format_int :: "int \<Rightarrow> string" where
  "format_int i = (if i < 0 then CHR ''-'' # digits (nat (- i)) else digits (nat i))"

text \<open>
  \<^verbatim>\<open>humanaudio\<close>: the session id is read with \<^verbatim>\<open>int(form.get('sessionid', 0))\<close>.
  A file is written under \<^verbatim>\<open>/tmp/audio\<close> and its path given to the renderer; a text
  value in the field has no \<^verbatim>\<open>filename\<close>.
\<close>

definition humanaudio :: "state \<Rightarrow> form \<Rightarrow> state \<times> response" where
  "humanaudio st f =
     (case (case sessionid_f f of None \<Rightarrow> Inr 0 | Some v \<Rightarrow> v) of
        Inl e \<Rightarrow> (st, Status (- 1) (str e))
      | Inr sid \<Rightarrow>
          (case DAList.lookup (nerfreals st) sid of
             None \<Rightarrow> (st, Status (- 1) ''session not found'')
           | Some None \<Rightarrow> (st, Status (- 1) ''session not found'')
           | Some (Some nerfreal) \<Rightarrow>
               (case file_f f of
                  None \<Rightarrow> (st, Status 0 ''ok'')
                | Some (Text t) \<Rightarrow>
                    if t = [] then (st, Status 0 ''ok'')
                    else (st, Status (- 1) (str (AttributeError
                      (CHR 0x27 # ''str'' @ CHR 0x27 # '' object has no attribute ''
                         @ CHR 0x27 # ''filename'' @ [CHR 0x27]))))
                | Some (File filename content) \<Rightarrow>
                    (let audio_path = ''/tmp/audio/audio_'' @ format_int sid @ ''_'' @ filename
                     in (st\<lparr>effects := effects st @
                            [Write audio_path content, Call nerfreal (put_audio_file audio_path)]\<rparr>,
                         Status 0 ''ok'')))))"

definition health :: "state \<Rightarrow> response" where
  "health st =
     Health ''healthy'' (size (nerfreals st))
       (case opt st of None \<Rightarrow> ''unknown'' | Some a \<Rightarrow> model a)"

definition on_shutdown :: "state \<Rightarrow> state" where
  "on_shutdown st = st\<lparr>pcs := {}\<rparr>"

section \<open>Runs of the event loop\<close>

text \<open>
  The control plane is one thread: between two suspension points a handler runs alone. An event
  is one such uninterrupted part. \<open>Built\<close> resumes an \<^verbatim>\<open>offer\<close> that is waiting for its
  build, with a connection object that did not exist before; \<open>ConnectionState\<close> is the
  transport calling the handler of a connection that exists. \<open>step\<close> is \<open>None\<close> for an
  event that cannot happen in the state.
\<close>

datatype event =
    Offer params "int \<Rightarrow> int \<Rightarrow> int"
  | Built int collaborators
  | ConnectionState nat string
  | Human params
  | InterruptTalk params
  | HumanAudio form
  | SetAudiotype params
  | HealthCheck
  | Shutdown

fun step :: "state \<Rightarrow> event \<Rightarrow> state option" where
  "step st (Offer p randint) = Some (fst (offer_admit st p randint))"
| "step st (Built sid x) =
     (if sid \<in> set (building st) \<and> DAList.lookup (peers st) (pc x) = None
      then Some (fst (offer_resume st sid x)) else None)"
| "step st (ConnectionState c cs) =
     (case DAList.lookup (peers st) c of
        None \<Rightarrow> None
      | Some p \<Rightarrow> Some (on_connectionstatechange st c (session p) cs))"
| "step st (Human p) = Some (fst (human st p))"
| "step st (InterruptTalk p) = Some (fst (interrupt_talk st p))"
| "step st (HumanAudio f) = Some (fst (humanaudio st f))"
| "step st (SetAudiotype p) = Some (fst (set_audiotype st p))"
| "step st HealthCheck = Some st"
| "step st Shutdown = Some (on_shutdown st)"

fun exec :: "state \<Rightarrow> event list \<Rightarrow> state option" where
  "exec st [] = Some st"
| "exec st (e # es) = (case step st e of None \<Rightarrow> None | Some st' \<Rightarrow> exec st' es)"

text \<open>A random source that returns \<open>r\<close> whenever \<open>r\<close> lies in the range asked for.\<close>

definition draws :: "int \<Rightarrow> int \<Rightarrow> int \<Rightarrow> int" where
  "draws r a b = max a (min b r)"

section \<open>Session ids in a run\<close>





text \<open>
  The events that store an entry under \<open>sid\<close>: an \<^verbatim>\<open>offer\<close> that draws it, and the
  end of a build for it. \<open>keeps_out sid st es\<close>: no event of the run \<open>es\<close> from \<open>st\<close> does.
\<close>

fun stores :: "int \<Rightarrow> state \<Rightarrow> event \<Rightarrow> bool" where
  "stores sid st (Offer p randint) = (snd (offer_admit st p randint) = Inr sid)"
| "stores sid st (Built sid' x) = (sid' = sid)"
| "stores sid st e = False"

fun keeps_out :: "int \<Rightarrow> state \<Rightarrow> event list \<Rightarrow> bool" where
  "keeps_out sid st [] = True"
| "keeps_out sid st (e # es) =
     (\<not> stores sid st e
      \<and> (case step st e of None \<Rightarrow> True | Some st' \<Rightarrow> keeps_out sid st' es))"



section \<open>Example values\<close>

definition args1 :: options where
  "args1 = \<lparr>max_session = Some 1, model = ''wav2lip'', sessionid = None\<rparr>"

definition args2 :: options where
  "args2 = \<lparr>max_session = Some 2, model = ''wav2lip'', sessionid = None\<rparr>"

definition unknown_model :: options where
  "unknown_model = \<lparr>max_session = Some 1, model = ''nerf'', sessionid = None\<rparr>"

definition offer_body :: params where
  "offer_body =
     \<lparr>sdp = Some ''v=0'', type_p = Some ''offer'', sessionid_p = None, text_p = None,
      interrupt = None, audiotype = None\<rparr>"



definition absent_command :: params where
  "absent_command =
     \<lparr>sdp = None, type_p = Some ''echo'', sessionid_p = Some 5, text_p = Some ''hello'',
      interrupt = Some True, audiotype = Some 1\<rparr>"

definition absent_form :: form where
  "absent_form = \<lparr>sessionid_f = Some (Inr 5), file_f = Some (File ''a.wav'' ''RIFF'')\<rparr>"

definition pending_command :: params where
  "pending_command = absent_command\<lparr>sessionid_p := Some 123456\<rparr>"

definition no_file :: form where
  "no_file = \<lparr>sessionid_f = Some (Inr 123456), file_f = None\<rparr>"

definition vp8 :: codec where
  "vp8 = \<lparr>mimeType = ''video/VP8'', clockRate = 90000\<rparr>"

definition h264a :: codec where
  "h264a = \<lparr>mimeType = ''video/H264'', clockRate = 90000\<rparr>"

definition h264b :: codec where
  "h264b = \<lparr>mimeType = ''video/H264'', clockRate = 90001\<rparr>"

definition rtx :: codec where
  "rtx = \<lparr>mimeType = ''video/rtx'', clockRate = 90000\<rparr>"

definition vp9 :: codec where
  "vp9 = \<lparr>mimeType = ''video/VP9'', clockRate = 90000\<rparr>"

definition audio_video :: "transceiver list" where
  "audio_video =
     [\<lparr>kind = ''audio'', preferences = None\<rparr>, \<lparr>kind = ''video'', preferences = None\<rparr>]"

text \<open>
  Collaborators that all succeed, with the connection object \<open>c\<close> and the renderer object
  \<open>a\<close>; and collaborators whose renderer constructor fails.
\<close>

definition collab :: "nat \<Rightarrow> nat \<Rightarrow> collaborators" where
  "collab c a =
     \<lparr>alloc = Inr a, pc = c, player = None, tracks = audio_video,
      capabilities = Inr (Some [vp8, h264a, rtx, h264b]), codec_failure = None,
      negotiation = Inr (''v=0'', ''answer'')\<rparr>"

definition out_of_memory :: collaborators where
  "out_of_memory = (collab 1 10)\<lparr>alloc := Inl (Raised ''CUDA out of memory'')\<rparr>"

text \<open>One session set up: id 123456, connection 1, renderer object 10.\<close>

definition one_session :: "options \<Rightarrow> state" where
  "one_session a =
     fst (offer_resume (fst (offer_admit (init (Some a)) offer_body (draws 123456))) 123456
       (collab 1 10))"

text \<open>The state after an \<^verbatim>\<open>offer\<close> whose build failed.\<close>

definition failed_build :: "options \<Rightarrow> state" where
  "failed_build a =
     fst (offer_resume (fst (offer_admit (init (Some a)) offer_body (draws 123456))) 123456
       out_of_memory)"

text \<open>
  A session is set up; its connection fails and the session is removed; a second
  \<^verbatim>\<open>offer\<close> draws the same id and waits for its build; the first connection, closed by
  the handler of the failure, reports \<^verbatim>\<open>closed\<close>.
\<close>

definition race_run :: "event list" where
  "race_run =
     [Offer offer_body (draws 123456), Built 123456 (collab 1 10),
      ConnectionState 1 ''failed'',
      Offer offer_body (draws 123456),
      ConnectionState 1 ''closed'']"



definition other_events :: "event list" where
  "other_events =
     [Offer offer_body (draws 654321), HealthCheck, ConnectionState 1 ''closed'',
      Built 654321 (collab 2 11)]"

section \<open>Basic facts\<close>

subsection \<open>The dict\<close>

lemma length_update:
  "length (AList.update k v al) = (if k \<in> fst ` set al then length al else Suc (length al))"
  by (induction al) auto

lemma size_update:
  "size (DAList.update k v d) = (if DAList.lookup d k \<noteq> None then size d else Suc (size d))"
  by (simp add: size_alist_def DAList.update.rep_eq DAList.lookup.rep_eq length_update
      map_of_eq_None_iff)


lemma length_delete:
  "distinct (map fst al) \<Longrightarrow> k \<in> fst ` set al \<Longrightarrow> Suc (length (AList.delete k al)) = length al"
  by (induction al) (auto simp: rev_image_eqI)

lemma size_delete:
  "DAList.lookup d k \<noteq> None \<Longrightarrow> Suc (size (DAList.delete k d)) = size d"
  by (simp add: size_alist_def DAList.delete.rep_eq DAList.lookup.rep_eq length_delete
      map_of_eq_None_iff)

lemma delete_absent: "DAList.lookup d k = None \<Longrightarrow> DAList.delete k d = d"
  by (simp add: alist_eq_iff DAList.delete.rep_eq DAList.lookup.rep_eq map_of_eq_None_iff)

lemma size_empty: "size (DAList.empty :: ('a, 'b) alist) = 0"
  by (simp add: size_alist_def DAList.empty.rep_eq)





subsection \<open>Evaluation of the examples\<close>

lemmas codec_examples = vp8_def h264a_def h264b_def rtx_def vp9_def audio_video_def

lemmas run_defs = offer_admit_def offer_resume_def on_connectionstatechange_def
  session_description_def reached_max_session_def randN_def draws_def build_nerfreal_def
  construct_def init_def offer_body_def collab_def args1_def args2_def one_session_def
  size_update size_empty

lemmas run_simps = run_defs apply_codec_preferences_def codec_preferences_def codec_examples
  DAList.lookup.rep_eq DAList.update.rep_eq DAList.delete.rep_eq DAList.empty.rep_eq
  size_alist_def

subsection \<open>Codecs and session ids\<close>

lemma scan_filter: "scan m cs prefs = prefs @ filter (\<lambda>c. mimeType c = m) cs"
  by (induction cs arbitrary: prefs) auto

lemma codec_preferences_filter:
  "codec_preferences cs =
     filter (\<lambda>c. mimeType c = ''video/H264'') cs
     @ filter (\<lambda>c. mimeType c = ''video/VP8'') cs
     @ filter (\<lambda>c. mimeType c = ''video/rtx'') cs"
  by (simp add: codec_preferences_def scan_filter)

lemma apply_empty:
  "codec_preferences cs = [] \<Longrightarrow> apply_codec_preferences (Inr (Some cs)) fails ts = ts"
  by (simp add: apply_codec_preferences_def Let_def)

lemma apply_nonempty:
  "codec_preferences cs \<noteq> [] \<Longrightarrow>
     apply_codec_preferences (Inr (Some cs)) None ts
       = setCodecPreferences (codec_preferences cs) ts"
  by (auto simp: apply_codec_preferences_def Let_def codec_preferences_def)

lemma randN_range:
  assumes "\<forall>a b. a \<le> b \<longrightarrow> a \<le> randint a b \<and> randint a b \<le> b" and "1 \<le> N"
  shows "\<exists>r. randN randint N = Inr r \<and> 10 ^ nat (N - 1) \<le> r \<and> r \<le> 10 ^ nat N - 1"
proof -
  have "nat N = Suc (nat (N - 1))" using assms(2) by simp
  then have "(10::int) ^ nat N = 10 * 10 ^ nat (N - 1)" by simp
  moreover have "(1::int) \<le> 10 ^ nat (N - 1)" by simp
  ultimately have "(10::int) ^ nat (N - 1) \<le> 10 ^ nat N - 1" by linarith
  with assms(1) have "10 ^ nat (N - 1) \<le> randint (10 ^ nat (N - 1)) (10 ^ nat N - 1)
      \<and> randint (10 ^ nat (N - 1)) (10 ^ nat N - 1) \<le> 10 ^ nat N - 1" by blast
  then show ?thesis using assms(2) by (simp add: randN_def Let_def)
qed

subsection \<open>What each handler changes\<close>

lemma offer_admit_Inr:
  "offer_admit st p randint = (st', Inr sid) \<Longrightarrow>
     randN randint 6 = Inr sid \<and> \<not> reached_max_session st
     \<and> st' = st\<lparr>nerfreals := DAList.update sid None (nerfreals st),
                 building := building st @ [sid]\<rparr>"
  by (auto simp: offer_admit_def split: sum.splits if_splits)

lemma offer_admit_cases:
  "(\<exists>r. offer_admit st p randint = (st, Inl r))
   \<or> (\<exists>sid. offer_admit st p randint =
         (st\<lparr>nerfreals := DAList.update sid None (nerfreals st),
             building := building st @ [sid]\<rparr>, Inr sid) \<and> \<not> reached_max_session st)"
  by (simp add: offer_admit_def split: sum.splits)





lemma offer_resume_nerfreals:
  "nerfreals (fst (offer_resume st sid x)) =
     (case snd (build_nerfreal (opt st) (alloc x) sid) of
        Inl e \<Rightarrow> nerfreals st
      | Inr r \<Rightarrow> DAList.update sid (Some r) (nerfreals st))"
  by (simp add: offer_resume_def Let_def case_prod_beta split: sum.splits option.splits)




lemma on_connectionstatechange_nerfreals:
  "nerfreals (on_connectionstatechange st c sid cs) =
     (if cs = ''failed'' \<or> cs = ''closed'' then DAList.delete sid (nerfreals st) else nerfreals st)"
  by (simp add: on_connectionstatechange_def Let_def delete_absent)

lemma command_frame:
  "nerfreals (fst (human st p)) = nerfreals st" "building (fst (human st p)) = building st"
  "peers (fst (human st p)) = peers st" "opt (fst (human st p)) = opt st"
  "nerfreals (fst (interrupt_talk st p)) = nerfreals st"
  "building (fst (interrupt_talk st p)) = building st"
  "peers (fst (interrupt_talk st p)) = peers st" "opt (fst (interrupt_talk st p)) = opt st"
  "nerfreals (fst (set_audiotype st p)) = nerfreals st"
  "building (fst (set_audiotype st p)) = building st"
  "peers (fst (set_audiotype st p)) = peers st" "opt (fst (set_audiotype st p)) = opt st"
  "nerfreals (fst (humanaudio st f)) = nerfreals st"
  "building (fst (humanaudio st f)) = building st"
  "peers (fst (humanaudio st f)) = peers st" "opt (fst (humanaudio st f)) = opt st"
  "nerfreals (on_shutdown st) = nerfreals st" "building (on_shutdown st) = building st"
  "peers (on_shutdown st) = peers st" "opt (on_shutdown st) = opt st"
  by (simp_all add: human_def interrupt_talk_def set_audiotype_def humanaudio_def on_shutdown_def
      call_def Let_def split: option.splits sum.splits field.splits)

subsection \<open>The invariant of the runs without a collision\<close>











subsection \<open>An id that no event stores stays absent\<close>

lemma absent_step:
  assumes "DAList.lookup (nerfreals st) sid = None" and "\<not> stores sid st e"
      and "step st e = Some st'"
  shows "DAList.lookup (nerfreals st') sid = None"
proof (cases e)
  case (Offer p randint)
  from offer_admit_cases[of st p randint] assms Offer show ?thesis
    by (elim disjE exE conjE) (auto simp: DAList.lookup_update)
next
  case (Built sid' x)
  with assms show ?thesis
    by (auto simp: offer_resume_nerfreals DAList.lookup_update split: if_splits sum.splits)
next
  case (ConnectionState c cs)
  with assms show ?thesis
    by (auto simp: on_connectionstatechange_nerfreals split: option.splits)
qed (use assms in \<open>auto simp: command_frame\<close>)

lemma absent_exec:
  "DAList.lookup (nerfreals st) sid = None \<Longrightarrow> keeps_out sid st es \<Longrightarrow> exec st es = Some st'
     \<Longrightarrow> DAList.lookup (nerfreals st') sid = None"
proof (induction es arbitrary: st)
  case Nil
  then show ?case by simp
next
  case (Cons e es)
  from Cons.prems(3) obtain st1 where s: "step st e = Some st1" and x: "exec st1 es = Some st'"
    by (auto split: option.splits)
  from Cons.prems(2) s have n: "\<not> stores sid st e" and k: "keeps_out sid st1 es" by simp_all
  from absent_step[OF Cons.prems(1) n s] have "DAList.lookup (nerfreals st1) sid = None" .
  from Cons.IH[OF this k x] show ?case .
qed

lemma cleanup_removes:
  "cs = ''failed'' \<or> cs = ''closed'' \<Longrightarrow>
     DAList.lookup (nerfreals (on_connectionstatechange st c sid cs)) sid = None"
  by (auto simp: on_connectionstatechange_nerfreals)

lemma cleanup_twice:
  assumes "c1 = ''failed'' \<or> c1 = ''closed''" and "c2 = ''failed'' \<or> c2 = ''closed''"
  shows "on_connectionstatechange (on_connectionstatechange st c sid c1) c sid c2
       = on_connectionstatechange st c sid c1"
  using assms by (auto simp: on_connectionstatechange_def Let_def)

section \<open>A build that ends after its session was removed (C1)\<close>

text \<open>
  C1 as stated fails. In \<open>race_run\<close> the entry of session 123456 is removed by the
  \<^verbatim>\<open>closed\<close> event of a connection while the build for that id is in progress. When the
  build ends, \<^verbatim>\<open>offer\<close> does not look the id up: the entry is back, holding the renderer
  just built.
\<close>

theorem removed_session_counterexample:
  "(case exec (init (Some args1)) race_run of
      None \<Rightarrow> False
    | Some st \<Rightarrow>
        123456 \<in> set (building st)
        \<and> DAList.lookup (nerfreals st) 123456 = None
        \<and> DAList.lookup (nerfreals (fst (offer_resume st 123456 (collab 2 11)))) 123456
            = Some (Some \<lparr>variant = LipReal, ref = 11\<rparr>))"
  by (simp add: race_run_def run_simps)

text \<open>
  C1, amended. When the build of a renderer succeeds, \<^verbatim>\<open>offer\<close> stores the renderer
  under the session id whatever the registry holds at that moment, with no lookup: afterwards
  the registry maps the id to the new renderer (also when the entry had been removed during
  the build), and the connection created for it is in \<open>pcs\<close>.
\<close>

theorem built_renderer_is_attached:
  assumes "snd (build_nerfreal (opt st) (alloc x) sid) = Inr r"
  shows "nerfreals (fst (offer_resume st sid x)) = DAList.update sid (Some r) (nerfreals st)
       \<and> DAList.lookup (nerfreals (fst (offer_resume st sid x))) sid = Some (Some r)
       \<and> pc x \<in> pcs (fst (offer_resume st sid x))"
proof -
  have "pc x \<in> pcs (fst (offer_resume st sid x))"
    using assms
    by (simp add: offer_resume_def Let_def case_prod_beta split: sum.splits option.splits)
  then show ?thesis using assms by (simp add: offer_resume_nerfreals)
qed

theorem built_renderer_is_attached_witness:
  "DAList.lookup (nerfreals (init (Some args1))) 123456 = None
   \<and> snd (build_nerfreal (opt (init (Some args1))) (alloc (collab 2 11)) 123456)
       = Inr \<lparr>variant = LipReal, ref = 11\<rparr>
   \<and> DAList.lookup (nerfreals (fst (offer_resume (init (Some args1)) 123456 (collab 2 11))))
        123456
       = Some (Some \<lparr>variant = LipReal, ref = 11\<rparr>)"
proof -
  have b: "snd (build_nerfreal (opt (init (Some args1))) (alloc (collab 2 11)) 123456)
       = Inr \<lparr>variant = LipReal, ref = 11\<rparr>"
    by (simp add: run_defs)
  have a: "DAList.lookup (nerfreals (init (Some args1))) 123456 = None"
    by (simp add: init_def)
  from built_renderer_is_attached[OF b] a b show ?thesis by simp
qed

section \<open>The session limit (C2)\<close>




section \<open>A build that fails (C3)\<close>

text \<open>
  C3. The code at a failing build. With a limit of 1, an \<^verbatim>\<open>offer\<close> is admitted and its
  renderer constructor raises: the response is \<^verbatim>\<open>{"code": -1, "msg": ...}\<close> with the
  text of the exception, but the placeholder stays in the registry, no build is in progress any
  more, and the next \<^verbatim>\<open>offer\<close> is refused with \<^verbatim>\<open>reach max session\<close>. The same
  holds for an unknown model.
\<close>

theorem build_failure_keeps_placeholder:
  "snd (offer_admit (init (Some args1)) offer_body (draws 123456)) = Inr 123456
   \<and> snd (offer_resume (fst (offer_admit (init (Some args1)) offer_body (draws 123456))) 123456
        out_of_memory) = Status (- 1) ''CUDA out of memory''
   \<and> DAList.lookup (nerfreals (failed_build args1)) 123456 = Some None
   \<and> size (nerfreals (failed_build args1)) = 1
   \<and> building (failed_build args1) = []
   \<and> offer_admit (failed_build args1) offer_body (draws 654321)
       = (failed_build args1, Inl (Status (- 1) ''reach max session''))
   \<and> snd (offer_resume (fst (offer_admit (init (Some unknown_model)) offer_body (draws 123456)))
        123456 (collab 1 10)) = Status (- 1) ''Unknown model: nerf''
   \<and> DAList.lookup (nerfreals (fst (offer_resume
        (fst (offer_admit (init (Some unknown_model)) offer_body (draws 123456)))
        123456 (collab 1 10)))) 123456 = Some None"
  by (simp add: failed_build_def out_of_memory_def unknown_model_def run_simps)

section \<open>Cleanup twice (C4)\<close>

text \<open>
  C4 as stated fails. The connection of session 123456 fails and the session is removed.
  An \<^verbatim>\<open>offer\<close> then draws the same id. The second cleanup of the first connection (its
  \<^verbatim>\<open>closed\<close> event) removes the new entry: the registry differs from the one a single
  cleanup leaves after the same \<^verbatim>\<open>offer\<close>.
\<close>

theorem cleanup_twice_counterexample:
  "map_option (\<lambda>st. DAList.lookup (nerfreals st) 123456)
     (exec (one_session args1)
        [ConnectionState 1 ''failed'', Offer offer_body (draws 123456),
         ConnectionState 1 ''closed'']) = Some None
   \<and> map_option (\<lambda>st. DAList.lookup (nerfreals st) 123456)
     (exec (one_session args1)
        [ConnectionState 1 ''failed'', Offer offer_body (draws 123456)]) = Some (Some None)"
  by (simp add: run_simps)

text \<open>
  C4, amended. The cleanup of a connection's handler (state \<^verbatim>\<open>failed\<close> or
  \<^verbatim>\<open>closed\<close>) run twice in a row, in any combination of the two states, leaves the
  state of a single cleanup. After a cleanup and any run of other events of which none stores an
  entry under the same session id again, a second cleanup leaves the registry as it finds it.
  The handler has no failing branch: the removal is guarded by membership.
\<close>

theorem cleanup_idempotent:
  assumes "c1 = ''failed'' \<or> c1 = ''closed''" and "c2 = ''failed'' \<or> c2 = ''closed''"
  shows "on_connectionstatechange (on_connectionstatechange st c sid c1) c sid c2
           = on_connectionstatechange st c sid c1
       \<and> (exec (on_connectionstatechange st c sid c1) es = Some st'
            \<and> keeps_out sid (on_connectionstatechange st c sid c1) es
          \<longrightarrow> nerfreals (on_connectionstatechange st' c sid c2) = nerfreals st')"
proof (intro conjI impI)
  show "on_connectionstatechange (on_connectionstatechange st c sid c1) c sid c2
           = on_connectionstatechange st c sid c1"
    using assms by (rule cleanup_twice)
next
  assume a: "exec (on_connectionstatechange st c sid c1) es = Some st'
            \<and> keeps_out sid (on_connectionstatechange st c sid c1) es"
  from cleanup_removes[OF assms(1)]
  have "DAList.lookup (nerfreals (on_connectionstatechange st c sid c1)) sid = None" .
  from absent_exec[OF this] a have "DAList.lookup (nerfreals st') sid = None" by blast
  then show "nerfreals (on_connectionstatechange st' c sid c2) = nerfreals st'"
    by (simp add: on_connectionstatechange_nerfreals delete_absent)
qed

theorem cleanup_idempotent_witness:
  "on_connectionstatechange (on_connectionstatechange (one_session args1) 1 123456 ''failed'')
       1 123456 ''closed''
     = on_connectionstatechange (one_session args1) 1 123456 ''failed''
   \<and> keeps_out 123456 (on_connectionstatechange (one_session args1) 1 123456 ''failed'')
        other_events
   \<and> (case exec (on_connectionstatechange (one_session args1) 1 123456 ''failed'') other_events of
         None \<Rightarrow> False
       | Some st' \<Rightarrow>
           DAList.lookup (nerfreals st') 654321 = Some (Some \<lparr>variant = LipReal, ref = 11\<rparr>)
           \<and> nerfreals (on_connectionstatechange st' 1 123456 ''closed'') = nerfreals st')"
proof -
  have c1: "''failed'' = ''failed'' \<or> ''failed'' = ''closed''" by simp
  have c2: "''closed'' = ''failed'' \<or> ''closed'' = ''closed''" by simp
  have k: "keeps_out 123456 (on_connectionstatechange (one_session args1) 1 123456 ''failed'')
        other_events"
    by (simp add: other_events_def run_simps)
  obtain st' where e: "exec (on_connectionstatechange (one_session args1) 1 123456 ''failed'')
      other_events = Some st'"
    and l: "DAList.lookup (nerfreals st') 654321 = Some (Some \<lparr>variant = LipReal, ref = 11\<rparr>)"
    by (simp add: other_events_def run_simps)
  from cleanup_idempotent[OF c1 c2, of "one_session args1" 1 123456 other_events st'] e k l
  show ?thesis by simp
qed

section \<open>Commands for a session that is not there (C5)\<close>

text \<open>
  C5 as stated fails. For a session id that is not in the registry, \<^verbatim>\<open>interrupt_talk\<close>
  and \<^verbatim>\<open>set_audiotype\<close> answer \<^verbatim>\<open>{"code": 0, "msg": "ok"}\<close>, not
  \<^verbatim>\<open>session not found\<close>.
\<close>

theorem absent_session_counterexample:
  "DAList.lookup (nerfreals (init (Some args1))) 5 = None
   \<and> get_sessionid absent_command = 5
   \<and> interrupt_talk (init (Some args1)) absent_command = (init (Some args1), Status 0 ''ok'')
   \<and> set_audiotype (init (Some args1)) absent_command = (init (Some args1), Status 0 ''ok'')"
  by (simp add: interrupt_talk_def set_audiotype_def get_sessionid_def absent_command_def init_def)

text \<open>
  C5, amended. For a session id that is not in the registry, or whose renderer is not attached
  yet, \<^verbatim>\<open>human\<close> (echo and chat text, with or without interrupt) and
  \<^verbatim>\<open>humanaudio\<close> answer \<^verbatim>\<open>{"code": -1, "msg": "session not found"}\<close>, while
  \<^verbatim>\<open>interrupt_talk\<close> and \<^verbatim>\<open>set_audiotype\<close> answer
  \<^verbatim>\<open>{"code": 0, "msg": "ok"}\<close>. Each of the four returns its response, calls no
  renderer and leaves the state as it was.
\<close>

theorem absent_session_responses:
  assumes "DAList.lookup (nerfreals st) (get_sessionid p) = None
         \<or> DAList.lookup (nerfreals st) (get_sessionid p) = Some None"
      and "(case sessionid_f f of None \<Rightarrow> Inr 0 | Some v \<Rightarrow> v) = Inr sid"
      and "DAList.lookup (nerfreals st) sid = None \<or> DAList.lookup (nerfreals st) sid = Some None"
  shows "human st p = (st, Status (- 1) ''session not found'')
       \<and> humanaudio st f = (st, Status (- 1) ''session not found'')
       \<and> interrupt_talk st p = (st, Status 0 ''ok'')
       \<and> set_audiotype st p = (st, Status 0 ''ok'')"
  using assms by (auto simp: human_def humanaudio_def interrupt_talk_def set_audiotype_def Let_def)

theorem absent_session_responses_witness:
  "DAList.lookup (nerfreals (fst (offer_admit (init (Some args1)) offer_body (draws 123456))))
       (get_sessionid pending_command) = Some None
   \<and> DAList.lookup (nerfreals (fst (offer_admit (init (Some args1)) offer_body (draws 123456)))) 5
       = None
   \<and> human (fst (offer_admit (init (Some args1)) offer_body (draws 123456))) pending_command
       = (fst (offer_admit (init (Some args1)) offer_body (draws 123456)),
          Status (- 1) ''session not found'')
   \<and> humanaudio (fst (offer_admit (init (Some args1)) offer_body (draws 123456))) absent_form
       = (fst (offer_admit (init (Some args1)) offer_body (draws 123456)),
          Status (- 1) ''session not found'')
   \<and> interrupt_talk (fst (offer_admit (init (Some args1)) offer_body (draws 123456)))
        pending_command
       = (fst (offer_admit (init (Some args1)) offer_body (draws 123456)), Status 0 ''ok'')
   \<and> set_audiotype (fst (offer_admit (init (Some args1)) offer_body (draws 123456)))
        pending_command
       = (fst (offer_admit (init (Some args1)) offer_body (draws 123456)), Status 0 ''ok'')"
proof -
  let ?st = "fst (offer_admit (init (Some args1)) offer_body (draws 123456))"
  have a: "DAList.lookup (nerfreals ?st) (get_sessionid pending_command) = Some None"
    by (simp add: get_sessionid_def pending_command_def absent_command_def run_defs)
  then have a': "DAList.lookup (nerfreals ?st) (get_sessionid pending_command) = None
         \<or> DAList.lookup (nerfreals ?st) (get_sessionid pending_command) = Some None" by simp
  have b: "(case sessionid_f absent_form of None \<Rightarrow> Inr 0 | Some v \<Rightarrow> v) = Inr 5"
    by (simp add: absent_form_def)
  have c: "DAList.lookup (nerfreals ?st) 5 = None"
    by (simp add: run_defs)
  then have c': "DAList.lookup (nerfreals ?st) 5 = None \<or> DAList.lookup (nerfreals ?st) 5 = Some None"
    by simp
  from absent_session_responses[OF a' b c'] a c show ?thesis by simp
qed

section \<open>A session id drawn twice (C6)\<close>

text \<open>
  C6. \<^verbatim>\<open>offer\<close> does not compare the id it draws with the registry. When the id drawn
  is the id of a registered session with its renderer attached, and the limit is not reached,
  the handler goes on without error or second draw: the entry of the session is overwritten by
  the placeholder, and the registry has as many entries as before.
\<close>

theorem colliding_id_overwrites:
  assumes "DAList.lookup (nerfreals st) sid = Some (Some r)"
      and "session_description p = Inr d"
      and "\<not> reached_max_session st"
      and "randN randint 6 = Inr sid"
  shows "offer_admit st p randint =
           (st\<lparr>nerfreals := DAList.update sid None (nerfreals st),
               building := building st @ [sid]\<rparr>, Inr sid)
       \<and> DAList.lookup (nerfreals (fst (offer_admit st p randint))) sid = Some None
       \<and> size (nerfreals (fst (offer_admit st p randint))) = size (nerfreals st)"
  using assms by (simp add: offer_admit_def size_update)

theorem colliding_id_overwrites_witness:
  "DAList.lookup (nerfreals (one_session args2)) 123456
     = Some (Some \<lparr>variant = LipReal, ref = 10\<rparr>)
   \<and> snd (offer_admit (one_session args2) offer_body (draws 123456)) = Inr 123456
   \<and> DAList.lookup (nerfreals (fst (offer_admit (one_session args2) offer_body (draws 123456))))
        123456 = Some None
   \<and> size (nerfreals (fst (offer_admit (one_session args2) offer_body (draws 123456)))) = 1"
proof -
  have a: "DAList.lookup (nerfreals (one_session args2)) 123456
     = Some (Some \<lparr>variant = LipReal, ref = 10\<rparr>)"
    by (simp add: run_defs)
  have b: "session_description offer_body = Inr (''v=0'', ''offer'')"
    by (simp add: run_defs)
  have c: "\<not> reached_max_session (one_session args2)"
    by (simp add: run_defs)
  have d: "randN (draws 123456) 6 = Inr 123456"
    by (simp add: run_defs)
  have s: "size (nerfreals (one_session args2)) = 1"
    by (simp add: run_defs)
  note t = colliding_id_overwrites[OF a b c d]
  from t[THEN conjunct1]
  have e: "snd (offer_admit (one_session args2) offer_body (draws 123456)) = Inr 123456"
    by simp
  from t[THEN conjunct2] a s e show ?thesis by simp
qed

section \<open>Codec preferences (C7)\<close>

text \<open>
  C7. The preference list is the codecs of type H264, then those of type VP8, then those of
  type rtx, each group in the order and with the repetitions of the capability list: the three
  loops compute the three filters, concatenated. For the capabilities VP8, H264, rtx, H264 the
  list is H264, H264, VP8, rtx. An empty preference list is not applied (the transceivers stay
  as they were); a non-empty one is given to the first video transceiver. The transceivers of
  the connection that \<^verbatim>\<open>offer\<close> sets up are the result.
\<close>

theorem codec_preference_order:
  "codec_preferences cs =
     filter (\<lambda>c. mimeType c = ''video/H264'') cs
     @ filter (\<lambda>c. mimeType c = ''video/VP8'') cs
     @ filter (\<lambda>c. mimeType c = ''video/rtx'') cs
   \<and> codec_preferences [vp8, h264a, rtx, h264b] = [h264a, h264b, vp8, rtx]
   \<and> (codec_preferences cs = [] \<longrightarrow> apply_codec_preferences (Inr (Some cs)) fails ts = ts)
   \<and> (codec_preferences cs \<noteq> [] \<longrightarrow>
        apply_codec_preferences (Inr (Some cs)) None ts
          = setCodecPreferences (codec_preferences cs) ts)
   \<and> (snd (build_nerfreal (opt st) (alloc x) sid) = Inr r \<and> player x = None \<longrightarrow>
        DAList.lookup (peers (fst (offer_resume st sid x))) (pc x)
          = Some \<lparr>session = sid,
                   transceivers = apply_codec_preferences (capabilities x) (codec_failure x)
                     (tracks x)\<rparr>)"
proof (intro conjI impI)
  show "codec_preferences [vp8, h264a, rtx, h264b] = [h264a, h264b, vp8, rtx]"
    by (simp add: codec_preferences_filter codec_examples)
next
  assume "snd (build_nerfreal (opt st) (alloc x) sid) = Inr r \<and> player x = None"
  then show "DAList.lookup (peers (fst (offer_resume st sid x))) (pc x)
          = Some \<lparr>session = sid,
                   transceivers = apply_codec_preferences (capabilities x) (codec_failure x)
                     (tracks x)\<rparr>"
    by (simp add: offer_resume_def Let_def case_prod_beta split: sum.splits)
qed (simp_all add: codec_preferences_filter[symmetric] apply_empty apply_nonempty)

theorem codec_preference_order_witness:
  "codec_preferences [vp9] = []
   \<and> apply_codec_preferences (Inr (Some [vp9])) None audio_video = audio_video
   \<and> codec_preferences [vp8, h264a, rtx, h264b] \<noteq> []
   \<and> apply_codec_preferences (Inr (Some [vp8, h264a, rtx, h264b])) None audio_video
       = [\<lparr>kind = ''audio'', preferences = None\<rparr>,
          \<lparr>kind = ''video'', preferences = Some [h264a, h264b, vp8, rtx]\<rparr>]
   \<and> DAList.lookup (peers (one_session args1)) 1
       = Some \<lparr>session = 123456,
                transceivers =
                  [\<lparr>kind = ''audio'', preferences = None\<rparr>,
                   \<lparr>kind = ''video'', preferences = Some [h264a, h264b, vp8, rtx]\<rparr>]\<rparr>"
proof -
  let ?st = "fst (offer_admit (init (Some args1)) offer_body (draws 123456))"
  have e: "codec_preferences [vp9] = []"
    by (simp add: codec_preferences_def codec_examples)
  have n: "codec_preferences [vp8, h264a, rtx, h264b] = [h264a, h264b, vp8, rtx]"
    by (simp add: codec_preferences_def codec_examples)
  have s: "setCodecPreferences [h264a, h264b, vp8, rtx] audio_video
       = [\<lparr>kind = ''audio'', preferences = None\<rparr>,
          \<lparr>kind = ''video'', preferences = Some [h264a, h264b, vp8, rtx]\<rparr>]"
    by (simp add: audio_video_def)
  have b: "snd (build_nerfreal (opt ?st) (alloc (collab 1 10)) 123456)
        = Inr \<lparr>variant = LipReal, ref = 10\<rparr> \<and> player (collab 1 10) = None"
    by (simp add: run_defs)
  have c: "capabilities (collab 1 10) = Inr (Some [vp8, h264a, rtx, h264b])
      \<and> codec_failure (collab 1 10) = None \<and> tracks (collab 1 10) = audio_video
      \<and> pc (collab 1 10) = 1"
    by (simp add: collab_def)
  note t1 = codec_preference_order[of "[vp9]" None audio_video ?st "collab 1 10" 123456
      "\<lparr>variant = LipReal, ref = 10\<rparr>"]
  note t2 = codec_preference_order[of "[vp8, h264a, rtx, h264b]" None audio_video ?st
      "collab 1 10" 123456 "\<lparr>variant = LipReal, ref = 10\<rparr>"]
  from t1 e have r1: "apply_codec_preferences (Inr (Some [vp9])) None audio_video = audio_video"
    by blast
  from t2 n s have r2: "apply_codec_preferences (Inr (Some [vp8, h264a, rtx, h264b])) None
      audio_video
       = [\<lparr>kind = ''audio'', preferences = None\<rparr>,
          \<lparr>kind = ''video'', preferences = Some [h264a, h264b, vp8, rtx]\<rparr>]"
    by simp
  from t2 b have "DAList.lookup (peers (fst (offer_resume ?st 123456 (collab 1 10))))
        (pc (collab 1 10))
      = Some \<lparr>session = 123456,
               transceivers = apply_codec_preferences (capabilities (collab 1 10))
                 (codec_failure (collab 1 10)) (tracks (collab 1 10))\<rparr>"
    by blast
  with c r2 have r3: "DAList.lookup (peers (one_session args1)) 1
       = Some \<lparr>session = 123456,
                transceivers =
                  [\<lparr>kind = ''audio'', preferences = None\<rparr>,
                   \<lparr>kind = ''video'', preferences = Some [h264a, h264b, vp8, rtx]\<rparr>]\<rparr>"
    by (simp add: one_session_def)
  from e n r1 r2 r3 show ?thesis by simp
qed

section \<open>The range of session ids (C8)\<close>

text \<open>
  C8. With a random source that returns a value between its bounds, \<open>randN N\<close> for
  \<open>N \<ge> 1\<close> returns a number between \<open>10 ^ (N - 1)\<close> and \<open>10 ^ N - 1\<close>, a number of
  exactly \<open>N\<close> digits; every session id that \<^verbatim>\<open>offer\<close> registers lies between
  100000 and 999999.
\<close>

theorem randN_bounded:
  assumes "\<forall>a b. a \<le> b \<longrightarrow> a \<le> randint a b \<and> randint a b \<le> b"
  shows "(1 \<le> N \<longrightarrow>
            (\<exists>r. randN randint N = Inr r \<and> 10 ^ nat (N - 1) \<le> r \<and> r \<le> 10 ^ nat N - 1))
       \<and> (offer_admit st p randint = (st', Inr sid) \<longrightarrow> 100000 \<le> sid \<and> sid \<le> 999999)"
proof (intro conjI impI)
  assume "1 \<le> N"
  with assms show "\<exists>r. randN randint N = Inr r \<and> 10 ^ nat (N - 1) \<le> r \<and> r \<le> 10 ^ nat N - 1"
    by (rule randN_range)
next
  assume "offer_admit st p randint = (st', Inr sid)"
  then have r: "randN randint 6 = Inr sid" by (simp add: offer_admit_Inr)
  from randN_range[OF assms, of 6] r
  show "100000 \<le> sid" and "sid \<le> 999999" by auto
qed

theorem randN_bounded_witness:
  "randN (draws 123456) 3 = Inr 999
   \<and> (10::int) ^ nat (3 - 1) \<le> 999 \<and> (999::int) \<le> 10 ^ nat 3 - 1
   \<and> snd (offer_admit (init (Some args1)) offer_body (draws 123456)) = Inr 123456
   \<and> (100000::int) \<le> 123456 \<and> (123456::int) \<le> 999999"
proof -
  have d: "\<forall>a b. a \<le> b \<longrightarrow> a \<le> draws 123456 a b \<and> draws 123456 a b \<le> b"
    by (simp add: draws_def)
  have e: "snd (offer_admit (init (Some args1)) offer_body (draws 123456)) = Inr 123456"
    by (simp add: run_defs)
  then have e': "offer_admit (init (Some args1)) offer_body (draws 123456)
      = (fst (offer_admit (init (Some args1)) offer_body (draws 123456)), Inr 123456)"
    by (simp add: prod_eq_iff)
  have r: "randN (draws 123456) 3 = Inr 999"
    by (simp add: randN_def draws_def)
  from randN_bounded[OF d, of 3 "init (Some args1)" offer_body
      "fst (offer_admit (init (Some args1)) offer_body (draws 123456))" 123456] e' r e
  show ?thesis by simp
qed

section \<open>The placeholder counts as a session (C9)\<close>

text \<open>
  C9. An \<^verbatim>\<open>offer\<close> that passes the limit check leaves, before its build starts, an entry
  with no renderer under its session id. That entry counts: the size of the registry is one
  more than without it, \<^verbatim>\<open>health\<close> reports the size of the registry as
  \<^verbatim>\<open>sessions\<close>, and the limit check compares the same size with the limit: when the
  size, placeholder included, has reached the limit, the next \<^verbatim>\<open>offer\<close> is refused
  while the build is still in progress.
\<close>

theorem placeholder_occupies_slot:
  assumes "offer_admit st p randint = (st', Inr sid)"
  shows "DAList.lookup (nerfreals st') sid = Some None
       \<and> sid \<in> set (building st')
       \<and> \<not> reached_max_session st
       \<and> size (nerfreals st') = Suc (size (DAList.delete sid (nerfreals st')))
       \<and> health st' = Health ''healthy'' (size (nerfreals st'))
            (case opt st' of None \<Rightarrow> ''unknown'' | Some a \<Rightarrow> model a)
       \<and> reached_max_session st' =
            (case opt st' of None \<Rightarrow> False
             | Some a \<Rightarrow> (case max_session a of None \<Rightarrow> False
                          | Some m \<Rightarrow> m \<le> int (size (nerfreals st'))))
       \<and> (opt st' = Some a \<and> max_session a = Some m \<and> m \<le> int (size (nerfreals st'))
            \<and> session_description p' = Inr d \<longrightarrow>
          offer_admit st' p' randint' = (st', Inl (Status (- 1) ''reach max session'')))"
proof -
  from offer_admit_Inr[OF assms]
  have st': "st' = st\<lparr>nerfreals := DAList.update sid None (nerfreals st),
      building := building st @ [sid]\<rparr>" and nr: "\<not> reached_max_session st"
    by simp_all
  have "DAList.lookup (nerfreals st') sid \<noteq> None" by (simp add: st')
  from size_delete[OF this]
  have a: "size (nerfreals st') = Suc (size (DAList.delete sid (nerfreals st')))" by simp
  have b: "DAList.lookup (nerfreals st') sid = Some None \<and> sid \<in> set (building st')"
    by (simp add: st')
  have c: "opt st' = Some a \<and> max_session a = Some m \<and> m \<le> int (size (nerfreals st'))
            \<and> session_description p' = Inr d \<longrightarrow>
          offer_admit st' p' randint' = (st', Inl (Status (- 1) ''reach max session''))"
    by (simp add: offer_admit_def reached_max_session_def)
  show ?thesis using nr a b c
    by (simp add: health_def reached_max_session_def)
qed

theorem placeholder_occupies_slot_witness:
  "snd (offer_admit (init (Some args1)) offer_body (draws 123456)) = Inr 123456
   \<and> DAList.lookup (nerfreals (fst (offer_admit (init (Some args1)) offer_body (draws 123456))))
        123456 = Some None
   \<and> health (fst (offer_admit (init (Some args1)) offer_body (draws 123456)))
        = Health ''healthy'' 1 ''wav2lip''
   \<and> reached_max_session (fst (offer_admit (init (Some args1)) offer_body (draws 123456)))
   \<and> offer_admit (fst (offer_admit (init (Some args1)) offer_body (draws 123456))) offer_body
        (draws 654321)
      = (fst (offer_admit (init (Some args1)) offer_body (draws 123456)),
         Inl (Status (- 1) ''reach max session''))"
proof -
  let ?st = "fst (offer_admit (init (Some args1)) offer_body (draws 123456))"
  have e: "snd (offer_admit (init (Some args1)) offer_body (draws 123456)) = Inr 123456"
    by (simp add: run_defs)
  then have e': "offer_admit (init (Some args1)) offer_body (draws 123456) = (?st, Inr 123456)"
    by (simp add: prod_eq_iff)
  have h: "health ?st = Health ''healthy'' 1 ''wav2lip''"
    by (simp add: run_defs health_def)
  have m: "reached_max_session ?st"
    by (simp add: run_defs)
  have o: "opt ?st = Some args1 \<and> max_session args1 = Some 1 \<and> 1 \<le> int (size (nerfreals ?st))
      \<and> session_description offer_body = Inr (''v=0'', ''offer'')"
    by (simp add: run_defs)
  note t = placeholder_occupies_slot[OF e', of args1 1 offer_body "(''v=0'', ''offer'')"
      "draws 654321"]
  from t o have r: "offer_admit ?st offer_body (draws 654321)
      = (?st, Inl (Status (- 1) ''reach max session''))" by blast
  from t have l: "DAList.lookup (nerfreals ?st) 123456 = Some None" by blast
  from e l h m r show ?thesis by simp
qed

section \<open>An audio upload without a file (C10)\<close>

text \<open>
  C10. For a session with its renderer attached, \<^verbatim>\<open>humanaudio\<close> with no file in the form
  answers \<^verbatim>\<open>{"code": 0, "msg": "ok"}\<close> and leaves the whole state as it was: nothing is
  written, no renderer is called, the registry is unchanged.
\<close>

theorem humanaudio_without_file:
  assumes "(case sessionid_f f of None \<Rightarrow> Inr 0 | Some v \<Rightarrow> v) = Inr sid"
      and "DAList.lookup (nerfreals st) sid = Some (Some r)"
      and "file_f f = None \<or> file_f f = Some (Text [])"
  shows "humanaudio st f = (st, Status 0 ''ok'')"
  using assms by (auto simp: humanaudio_def)

theorem humanaudio_without_file_witness:
  "DAList.lookup (nerfreals (one_session args1)) 123456
     = Some (Some \<lparr>variant = LipReal, ref = 10\<rparr>)
   \<and> file_f no_file = None
   \<and> humanaudio (one_session args1) no_file = (one_session args1, Status 0 ''ok'')"
proof -
  have a: "(case sessionid_f no_file of None \<Rightarrow> Inr 0 | Some v \<Rightarrow> v) = Inr 123456"
    by (simp add: no_file_def)
  have b: "DAList.lookup (nerfreals (one_session args1)) 123456
     = Some (Some \<lparr>variant = LipReal, ref = 10\<rparr>)"
    by (simp add: run_defs)
  have c: "file_f no_file = None \<or> file_f no_file = Some (Text [])"
    by (simp add: no_file_def)
  from humanaudio_without_file[OF a b c] b show ?thesis by (simp add: no_file_def)
qed

end
